theory Spec2Isabelle
  imports Complex_Main "HOL-Library.Multiset"
begin

section \<open>Data model (src/types/app.ts)\<close>

text \<open>
  Every interface of \<^verbatim>\<open>app.ts\<close> is an envelope \<^verbatim>\<open>{record_id, createdat, updatedat, fields}\<close>
  around a record of optional fields. An optional field \<^verbatim>\<open>f?: T\<close> is a \<open>T option\<close>
  (\<open>None\<close> is \<^verbatim>\<open>undefined\<close>). A \<^verbatim>\<open>number\<close> field is a value of a type \<open>'n\<close> left open:
  the program's numbers are IEEE doubles, and nothing below depends on what they are except
  through the arithmetic handed to the revenue. A string is a \<open>string\<close>, one character
  standing for one code unit below 256.
  The envelope's last field is called \<open>fields'\<close>, since \<open>fields\<close> is taken by the record
  package.
\<close>

record DozentenFields =
  name :: "string option"
  email :: "string option"
  telefon :: "string option"
  fachgebiet :: "string option"

record TeilnehmerFields =
  name :: "string option"
  email :: "string option"
  telefon :: "string option"
  geburtsdatum :: "string option"

record 'n RaeumeFields =
  raumname :: "string option"
  gebaeude :: "string option"
  kapazitaet :: "'n option"

datatype Status = Geplant | Aktiv | Abgeschlossen | Abgesagt

record 'n KurseFields =
  titel :: "string option"
  beschreibung :: "string option"
  startdatum :: "string option"
  enddatum :: "string option"
  max_teilnehmer :: "'n option"
  preis :: "'n option"
  dozent :: "string option"
  raum :: "string option"
  status :: "Status option"

record AnmeldungenFields =
  teilnehmer :: "string option"
  kurs :: "string option"
  anmeldedatum :: "string option"
  bezahlt :: "bool option"

record 'f Entity =
  record_id :: string
  createdat :: string
  updatedat :: "string option"
  fields' :: 'f

type_synonym Dozenten = "DozentenFields Entity"
type_synonym Teilnehmer = "TeilnehmerFields Entity"
type_synonym 'n Raeume = "'n RaeumeFields Entity"
type_synonym 'n Kurse = "'n KurseFields Entity"
type_synonym Anmeldungen = "AnmeldungenFields Entity"

text \<open>The rows the two views hand to their charts.\<close>

record KursCount =
  name :: string
  count :: int

record KursAnmeldungenDatum =
  name :: string
  anmeldungen :: int

record StatusDatum =
  name :: string
  val :: int
  color :: string

text \<open>\<^verbatim>\<open>interface Stats\<close>, the snapshot both views keep (the two files list the same five fields).\<close>

record 'n Stats =
  dozenten :: "Dozenten list"
  teilnehmer :: "Teilnehmer list"
  raeume :: "'n Raeume list"
  kurse :: "'n Kurse list"
  anmeldungen :: "Anmeldungen list"

section \<open>JavaScript primitives the views rely on\<close>

text \<open>
  A \<^verbatim>\<open>Date\<close> holds a time value in milliseconds or is an Invalid Date, whose
  \<^verbatim>\<open>getTime()\<close> is NaN. Numbers that may be NaN are \<open>int option\<close> with \<open>None\<close> for NaN;
  every comparison with NaN is false and every difference with NaN is NaN.
\<close>

datatype Date = Time int | InvalidDate

fun getTime :: "Date \<Rightarrow> int option" where
  "getTime (Time t) = Some t"
| "getTime InvalidDate = None"

definition num_sub :: "int option \<Rightarrow> int option \<Rightarrow> int option" where
  "num_sub x y = (case (x, y) of (Some a, Some b) \<Rightarrow> Some (a - b) | _ \<Rightarrow> None)"

definition num_less :: "int option \<Rightarrow> int option \<Rightarrow> bool" where
  "num_less x y = (case (x, y) of (Some a, Some b) \<Rightarrow> a < b | _ \<Rightarrow> False)"

definition num_ge :: "int option \<Rightarrow> int option \<Rightarrow> bool" where
  "num_ge x y = (case (x, y) of (Some a, Some b) \<Rightarrow> a \<ge> b | _ \<Rightarrow> False)"

text \<open>date-fns: \<^verbatim>\<open>isBefore(d, c)\<close> is \<^verbatim>\<open>+d < +c\<close>, \<^verbatim>\<open>isAfter(d, c)\<close> is \<^verbatim>\<open>+d > +c\<close>.\<close>

definition isBefore :: "Date \<Rightarrow> Date \<Rightarrow> bool" where
  "isBefore d c = num_less (getTime d) (getTime c)"

definition isAfter :: "Date \<Rightarrow> Date \<Rightarrow> bool" where
  "isAfter d c = num_less (getTime c) (getTime d)"

text \<open>
  \<^verbatim>\<open>s ? parse(s) : null\<close> for an optional string: \<^verbatim>\<open>undefined\<close> and the empty string are
  falsy. The parser itself (\<^verbatim>\<open>parseISO\<close> of date-fns, or \<^verbatim>\<open>new Date\<close>) is a parameter.
\<close>

definition parse_if_set :: "(string \<Rightarrow> Date) \<Rightarrow> string option \<Rightarrow> Date option" where
  "parse_if_set parse s =
     (case s of None \<Rightarrow> None | Some v \<Rightarrow> if v = [] then None else Some (parse v))"

text \<open>
  \<^verbatim>\<open>parse(s!)\<close> inside the sort comparators: the non-null assertion is erased at run
  time. The comparators only run on courses that passed the filter in front of the sort,
  whose start date is a non-empty string; for an absent string, which they never meet,
  the model answers with an Invalid Date, as \<^verbatim>\<open>new Date(undefined)\<close> does.
\<close>

definition parse_arg :: "(string \<Rightarrow> Date) \<Rightarrow> string option \<Rightarrow> Date" where
  "parse_arg parse s = (case s of None \<Rightarrow> InvalidDate | Some v \<Rightarrow> parse v)"

text \<open>
  \<^verbatim>\<open>Array.prototype.sort(cmp)\<close>: stable; a NaN from the comparator counts as \<open>0\<close>.
  For a consistent comparator the result is the stable sorted permutation, computed here by
  insertion: an element goes in front of the first later element it does not exceed. For a
  comparator that is not consistent (one that answers NaN for some pairs only) the language
  leaves the order to the engine; insertion is then one admissible order, and engines may
  return another.
\<close>

definition sortCompare :: "('a \<Rightarrow> 'a \<Rightarrow> int option) \<Rightarrow> 'a \<Rightarrow> 'a \<Rightarrow> int" where
  "sortCompare cmp x y = (case cmp x y of None \<Rightarrow> 0 | Some v \<Rightarrow> v)"

fun insert_cmp :: "('a \<Rightarrow> 'a \<Rightarrow> int option) \<Rightarrow> 'a \<Rightarrow> 'a list \<Rightarrow> 'a list" where
  "insert_cmp cmp x [] = [x]"
| "insert_cmp cmp x (y # ys) =
     (if sortCompare cmp x y \<le> 0 then x # y # ys else y # insert_cmp cmp x ys)"

fun sort_cmp :: "('a \<Rightarrow> 'a \<Rightarrow> int option) \<Rightarrow> 'a list \<Rightarrow> 'a list" where
  "sort_cmp cmp [] = []"
| "sort_cmp cmp (x # xs) = insert_cmp cmp x (sort_cmp cmp xs)"

text \<open>
  \<^verbatim>\<open>ref?.match(/([a-f0-9]{24})$/i)?.[1]\<close>: the matcher tries every start position from
  the left; at a position it succeeds when exactly 24 hexadecimal digits (either case)
  remain up to the end of the string, and captures them as they are written.
\<close>

definition is_hex :: "char \<Rightarrow> bool" where
  "is_hex c = (c \<in> set ''0123456789abcdefABCDEF'')"

fun match_at :: "string \<Rightarrow> string option" where
  "match_at [] = None"
| "match_at (c # cs) =
     (if length (c # cs) = 24 \<and> list_all is_hex (c # cs) then Some (c # cs) else match_at cs)"

definition match_id :: "string option \<Rightarrow> string option" where
  "match_id ref = (case ref of None \<Rightarrow> None | Some s \<Rightarrow> match_at s)"

definition truthy :: "bool option \<Rightarrow> bool" where
  "truthy b = (b = Some True)"

section \<open>First view (src/unnamed/part\_000)\<close>

definition activeKurse :: "(string \<Rightarrow> Date) \<Rightarrow> int \<Rightarrow> 'n Stats option \<Rightarrow> 'n Kurse list" where
  "activeKurse parseISO now stats =
     (case stats of None \<Rightarrow> []
      | Some st \<Rightarrow> filter (\<lambda>k.
          let start = parse_if_set parseISO (startdatum (fields' k));
              ende = parse_if_set parseISO (enddatum (fields' k))
          in case start of None \<Rightarrow> False
             | Some s \<Rightarrow> isBefore s (Time now) \<and>
                 (case ende of None \<Rightarrow> True | Some e \<Rightarrow> isAfter e (Time now)))
          (kurse st))"

definition start_cmp :: "(string \<Rightarrow> Date) \<Rightarrow> 'n Kurse \<Rightarrow> 'n Kurse \<Rightarrow> int option" where
  "start_cmp parse a b =
     num_sub (getTime (parse_arg parse (startdatum (fields' a))))
             (getTime (parse_arg parse (startdatum (fields' b))))"

definition upcomingKurse :: "(string \<Rightarrow> Date) \<Rightarrow> int \<Rightarrow> 'n Stats option \<Rightarrow> 'n Kurse list" where
  "upcomingKurse parseISO now stats =
     (case stats of None \<Rightarrow> []
      | Some st \<Rightarrow> take 5 (sort_cmp (start_cmp parseISO)
          (filter (\<lambda>k. case parse_if_set parseISO (startdatum (fields' k)) of
                          None \<Rightarrow> False | Some s \<Rightarrow> isAfter s (Time now))
             (kurse st))))"

text \<open>\<^verbatim>\<open>bezahltCount\<close> and \<^verbatim>\<open>unbezahltCount\<close> are written the same way in both files.\<close>

definition bezahltCount :: "'n Stats option \<Rightarrow> int" where
  "bezahltCount stats =
     (case stats of None \<Rightarrow> 0
      | Some st \<Rightarrow> int (length (filter (\<lambda>a. truthy (bezahlt (fields' a))) (anmeldungen st))))"

definition unbezahltCount :: "'n Stats option \<Rightarrow> int" where
  "unbezahltCount stats =
     (case stats of None \<Rightarrow> 0 | Some st \<Rightarrow> int (length (anmeldungen st))) - bezahltCount stats"

text \<open>
  \<^verbatim>\<open>extractRecordId\<close> comes from \<^verbatim>\<open>@/services/livingAppsService\<close>, which is not among the
  sources; it is a parameter (\<open>None\<close> is its \<^verbatim>\<open>null\<close>). The ellipsis appended to a long
  title, U+2026, is one code unit in the program and lies outside the characters of
  \<open>string\<close>; it stands here as its three UTF-8 bytes, so a shortened name is two characters
  longer than in the program. Only the \<open>name\<close> of a row is affected, never its count.
\<close>

definition ellipsis :: string where
  "ellipsis = [CHR 0xE2, CHR 0x80, CHR 0xA6]"

definition count_cmp :: "KursCount \<Rightarrow> KursCount \<Rightarrow> int option" where
  "count_cmp a b = Some (count b - count a)"

definition kursCounts :: "(string option \<Rightarrow> string option) \<Rightarrow> 'n Stats \<Rightarrow> KursCount list" where
  "kursCounts extractRecordId st =
     map (\<lambda>k. \<lparr> KursCount.name =
                  (case titel (fields' k) of None \<Rightarrow> ''Unbenannt''
                   | Some t \<Rightarrow> if t = [] then ''Unbenannt''
                              else if length t > 18 then take 18 t @ ellipsis else t),
                count = int (length (filter
                  (\<lambda>a. extractRecordId (kurs (fields' a)) = Some (record_id k))
                  (anmeldungen st))) \<rparr>)
         (kurse st)"

definition kursAnmeldungen :: "(string option \<Rightarrow> string option) \<Rightarrow> 'n Stats option \<Rightarrow> KursCount list" where
  "kursAnmeldungen extractRecordId stats =
     (case stats of None \<Rightarrow> []
      | Some st \<Rightarrow> take 6 (sort_cmp count_cmp (kursCounts extractRecordId st)))"

definition anmeldedatum_time :: "(string \<Rightarrow> Date) \<Rightarrow> Anmeldungen \<Rightarrow> int option" where
  "anmeldedatum_time parseISO a =
     (case anmeldedatum (fields' a) of None \<Rightarrow> Some 0
      | Some s \<Rightarrow> if s = [] then Some 0 else getTime (parseISO s))"

definition recent_cmp :: "(string \<Rightarrow> Date) \<Rightarrow> Anmeldungen \<Rightarrow> Anmeldungen \<Rightarrow> int option" where
  "recent_cmp parseISO a b =
     (let da = anmeldedatum_time parseISO a; db = anmeldedatum_time parseISO b
      in num_sub db da)"

definition recentAnmeldungen :: "(string \<Rightarrow> Date) \<Rightarrow> 'n Stats option \<Rightarrow> Anmeldungen list" where
  "recentAnmeldungen parseISO stats =
     take 6 (sort_cmp (recent_cmp parseISO)
       (case stats of None \<Rightarrow> [] | Some st \<Rightarrow> anmeldungen st))"

section \<open>Second view (src/pages/DashboardOverview.tsx)\<close>

fun STATUS_COLORS :: "Status \<Rightarrow> string" where
  "STATUS_COLORS Geplant = ''oklch(0.72 0.18 55)''"
| "STATUS_COLORS Aktiv = ''oklch(0.62 0.18 160)''"
| "STATUS_COLORS Abgeschlossen = ''oklch(0.52 0.22 268)''"
| "STATUS_COLORS Abgesagt = ''oklch(0.577 0.245 27.325)''"

fun STATUS_LABELS :: "Status \<Rightarrow> string" where
  "STATUS_LABELS Geplant = ''Geplant''"
| "STATUS_LABELS Aktiv = ''Aktiv''"
| "STATUS_LABELS Abgeschlossen = ''Abgeschlossen''"
| "STATUS_LABELS Abgesagt = ''Abgesagt''"

definition aktiveKurse :: "'n Stats option \<Rightarrow> int" where
  "aktiveKurse stats =
     (case stats of None \<Rightarrow> 0
      | Some st \<Rightarrow> int (length (filter (\<lambda>k. status (fields' k) = Some Aktiv) (kurse st))))"

text \<open>
  The revenue adds and multiplies \<^verbatim>\<open>number\<close>s. The arithmetic is a parameter: \<open>add\<close> is
  \<^verbatim>\<open>+\<close>, \<open>mul\<close> is \<^verbatim>\<open>*\<close> and \<open>num n\<close> is the number \<open>n\<close> (a length, or the literal
  \<^verbatim>\<open>0\<close>). In the program these are the operations on doubles, which round and overflow.
\<close>

definition gesamtUmsatz_in ::
  "('n \<Rightarrow> 'n \<Rightarrow> 'n) \<Rightarrow> ('n \<Rightarrow> 'n \<Rightarrow> 'n) \<Rightarrow> (nat \<Rightarrow> 'n) \<Rightarrow> 'n Stats option \<Rightarrow> 'n" where
  "gesamtUmsatz_in add mul num stats =
     (case stats of None \<Rightarrow> num 0
      | Some st \<Rightarrow> foldl (\<lambda>sum k.
          let kursAnmeldungen = filter
                (\<lambda>a. match_id (kurs (fields' a)) = Some (record_id k)) (anmeldungen st)
          in add sum (mul (case preis (fields' k) of None \<Rightarrow> num 0 | Some p \<Rightarrow> p)
               (num (length (filter (\<lambda>a. truthy (bezahlt (fields' a))) kursAnmeldungen)))))
          (num 0) (kurse st))"

text \<open>The revenue in exact arithmetic, on real numbers.\<close>

definition gesamtUmsatz :: "real Stats option \<Rightarrow> real" where
  "gesamtUmsatz stats = gesamtUmsatz_in (+) (*) real stats"

definition statusData :: "'n Stats option \<Rightarrow> StatusDatum list" where
  "statusData stats =
     filter (\<lambda>d. val d > 0)
       (map (\<lambda>s. \<lparr> StatusDatum.name = STATUS_LABELS s,
                   val = (case stats of None \<Rightarrow> 0
                          | Some st \<Rightarrow> int (length (filter (\<lambda>k. status (fields' k) = Some s) (kurse st)))),
                   color = STATUS_COLORS s \<rparr>)
          [Geplant, Aktiv, Abgeschlossen, Abgesagt])"

definition anmeldungen_cmp :: "KursAnmeldungenDatum \<Rightarrow> KursAnmeldungenDatum \<Rightarrow> int option" where
  "anmeldungen_cmp a b =
     Some (KursAnmeldungenDatum.anmeldungen b - KursAnmeldungenDatum.anmeldungen a)"

definition kursAnmeldungenRows :: "'n Stats option \<Rightarrow> KursAnmeldungenDatum list" where
  "kursAnmeldungenRows stats =
     map (\<lambda>k. \<lparr> KursAnmeldungenDatum.name =
                  (case titel (fields' k) of None \<Rightarrow> ''Unbekannt'' | Some t \<Rightarrow> t),
                anmeldungen =
                  (case stats of None \<Rightarrow> 0
                   | Some st \<Rightarrow> int (length (filter
                       (\<lambda>a. match_id (kurs (fields' a)) = Some (record_id k))
                       (anmeldungen st)))) \<rparr>)
         (case stats of None \<Rightarrow> [] | Some st \<Rightarrow> kurse st)"

definition kursAnmeldungenData :: "'n Stats option \<Rightarrow> KursAnmeldungenDatum list" where
  "kursAnmeldungenData stats = take 6 (sort_cmp anmeldungen_cmp (kursAnmeldungenRows stats))"

definition upcomingKurse_Overview :: "(string \<Rightarrow> Date) \<Rightarrow> int \<Rightarrow> 'n Stats option \<Rightarrow> 'n Kurse list" where
  "upcomingKurse_Overview newDate now stats =
     take 4 (sort_cmp (start_cmp newDate)
       (filter (\<lambda>k. case startdatum (fields' k) of None \<Rightarrow> False
                    | Some s \<Rightarrow> s \<noteq> [] \<and> num_ge (getTime (newDate s)) (Some now))
          (case stats of None \<Rightarrow> [] | Some st \<Rightarrow> kurse st)))"

section \<open>Loading the snapshot (both views)\<close>

text \<open>
  Each of the five requests ends fulfilled with its collection, rejected, or never settles.
  \<^verbatim>\<open>Promise.all\<close> rejects as soon as one of its inputs rejects, fulfils with all the
  values when all fulfil, and stays pending otherwise. The rejection reason only reaches
  \<^verbatim>\<open>console.error\<close>; the model counts those calls.
\<close>

datatype 'a Promise = Fulfilled 'a | Rejected | Pending

fun is_rejected :: "'a Promise \<Rightarrow> bool" where
  "is_rejected Rejected = True"
| "is_rejected _ = False"

definition Promise_all ::
  "'a Promise \<Rightarrow> 'b Promise \<Rightarrow> 'c Promise \<Rightarrow> 'd Promise \<Rightarrow> 'e Promise
     \<Rightarrow> ('a \<times> 'b \<times> 'c \<times> 'd \<times> 'e) Promise" where
  "Promise_all p1 p2 p3 p4 p5 =
     (if is_rejected p1 \<or> is_rejected p2 \<or> is_rejected p3 \<or> is_rejected p4 \<or> is_rejected p5
      then Rejected
      else case (p1, p2, p3, p4, p5) of
             (Fulfilled a, Fulfilled b, Fulfilled c, Fulfilled d, Fulfilled e) \<Rightarrow>
               Fulfilled (a, b, c, d, e)
           | _ \<Rightarrow> Pending)"

text \<open>The component state: \<^verbatim>\<open>useState<Stats | null>(null)\<close> and \<^verbatim>\<open>useState(true)\<close>.\<close>

record 'n View =
  stats :: "'n Stats option"
  loading :: bool
  console_errors :: nat

definition initial_view :: "'n View" where
  "initial_view = \<lparr> stats = None, loading = True, console_errors = 0 \<rparr>"

text \<open>part\_000: \<^verbatim>\<open>try { ... await Promise.all([...]); setStats(...) } catch ... finally ...\<close>\<close>

definition load ::
  "Dozenten list Promise \<Rightarrow> Teilnehmer list Promise \<Rightarrow> 'n Raeume list Promise \<Rightarrow>
   'n Kurse list Promise \<Rightarrow> Anmeldungen list Promise \<Rightarrow> 'n View \<Rightarrow> 'n View" where
  "load getDozenten getTeilnehmer getRaeume getKurse getAnmeldungen v =
     (case Promise_all getDozenten getTeilnehmer getRaeume getKurse getAnmeldungen of
        Fulfilled (d, t, r, k, a) \<Rightarrow>
          v\<lparr> stats := Some \<lparr> dozenten = d, teilnehmer = t, raeume = r, kurse = k,
                               anmeldungen = a \<rparr>,
             loading := False \<rparr>
      | Rejected \<Rightarrow> v\<lparr> console_errors := console_errors v + 1, loading := False \<rparr>
      | Pending \<Rightarrow> v)"

text \<open>DashboardOverview.tsx: \<^verbatim>\<open>Promise.all([...]).then(...).catch(console.error).finally(...)\<close>\<close>

definition useEffect_Overview ::
  "'n Kurse list Promise \<Rightarrow> Anmeldungen list Promise \<Rightarrow> Dozenten list Promise \<Rightarrow>
   Teilnehmer list Promise \<Rightarrow> 'n Raeume list Promise \<Rightarrow> 'n View \<Rightarrow> 'n View" where
  "useEffect_Overview getKurse getAnmeldungen getDozenten getTeilnehmer getRaeume v =
     (case Promise_all getKurse getAnmeldungen getDozenten getTeilnehmer getRaeume of
        Fulfilled (k, a, d, t, r) \<Rightarrow>
          v\<lparr> stats := Some \<lparr> dozenten = d, teilnehmer = t, raeume = r, kurse = k,
                               anmeldungen = a \<rparr>,
             loading := False \<rparr>
      | Rejected \<Rightarrow> v\<lparr> console_errors := console_errors v + 1, loading := False \<rparr>
      | Pending \<Rightarrow> v)"

section \<open>Vocabulary of the specification\<close>

text \<open>
  The instant an optional date string denotes: none when the field is unset (absent or
  empty) or when the parser yields an Invalid Date.
\<close>

definition is_set :: "string option \<Rightarrow> bool" where
  "is_set s = (case s of None \<Rightarrow> False | Some v \<Rightarrow> v \<noteq> [])"

definition date_of :: "(string \<Rightarrow> Date) \<Rightarrow> string option \<Rightarrow> int option" where
  "date_of parse s =
     (case s of None \<Rightarrow> None | Some v \<Rightarrow> if v = [] then None else getTime (parse v))"

definition start_time :: "(string \<Rightarrow> Date) \<Rightarrow> 'n Kurse \<Rightarrow> int option" where
  "start_time parse k = date_of parse (startdatum (fields' k))"

text \<open>Spec: start strictly before now, and end unset or strictly after now.\<close>

definition spec_active :: "(string \<Rightarrow> Date) \<Rightarrow> int \<Rightarrow> 'n Kurse \<Rightarrow> bool" where
  "spec_active parse now k =
     (num_less (date_of parse (startdatum (fields' k))) (Some now) \<and>
      (\<not> is_set (enddatum (fields' k)) \<or>
       num_less (Some now) (date_of parse (enddatum (fields' k)))))"

text \<open>Spec: the registration date, with a missing date read as the epoch.\<close>

definition date_or_epoch :: "(string \<Rightarrow> Date) \<Rightarrow> Anmeldungen \<Rightarrow> int option" where
  "date_or_epoch parse a =
     (if is_set (anmeldedatum (fields' a)) then date_of parse (anmeldedatum (fields' a))
      else Some 0)"

text \<open>Spec: the price of a course, 0 if absent; a paid registration referencing a course.\<close>

definition price_in :: "(nat \<Rightarrow> 'n) \<Rightarrow> 'n Kurse \<Rightarrow> 'n" where
  "price_in num k = (case preis (fields' k) of None \<Rightarrow> num 0 | Some p \<Rightarrow> p)"

definition price :: "real Kurse \<Rightarrow> real" where
  "price k = (case preis (fields' k) of None \<Rightarrow> 0 | Some p \<Rightarrow> p)"

text \<open>Spec: the sum of a list of numbers, added up from the left in a given arithmetic.\<close>

fun sum_in :: "('n \<Rightarrow> 'n \<Rightarrow> 'n) \<Rightarrow> 'n \<Rightarrow> 'n list \<Rightarrow> 'n" where
  "sum_in add acc [] = acc"
| "sum_in add acc (x # xs) = sum_in add (add acc x) xs"

definition paid_for :: "'n Kurse \<Rightarrow> Anmeldungen \<Rightarrow> bool" where
  "paid_for k a =
     (match_id (kurs (fields' a)) = Some (record_id k) \<and> truthy (bezahlt (fields' a)))"

text \<open>Spec: the course reference of a registration resolves to some loaded course.\<close>

definition resolves :: "(string option \<Rightarrow> string option) \<Rightarrow> 'n Kurse list \<Rightarrow> Anmeldungen \<Rightarrow> bool" where
  "resolves ext ks a =
     (case ext (kurs (fields' a)) of None \<Rightarrow> False
      | Some i \<Rightarrow> i \<in> set (map record_id ks))"

text \<open>Spec: the number of courses in a status, and the bucket shown for it.\<close>

definition status_count :: "'n Stats option \<Rightarrow> Status \<Rightarrow> int" where
  "status_count s x =
     (case s of None \<Rightarrow> 0
      | Some st \<Rightarrow> int (length (filter (\<lambda>k. status (fields' k) = Some x) (kurse st))))"

definition status_bucket :: "'n Stats option \<Rightarrow> Status \<Rightarrow> StatusDatum" where
  "status_bucket s x =
     \<lparr> StatusDatum.name = STATUS_LABELS x, val = status_count s x, color = STATUS_COLORS x \<rparr>"

section \<open>Sample data\<close>

text \<open>
  What both date parsers return, on a machine running in UTC, for the two date strings
  used below (milliseconds since the epoch); anything else is an Invalid Date here.
\<close>

definition parse_ex :: "string \<Rightarrow> Date" where
  "parse_ex s =
     (if s = ''2026-01-01'' then Time 1767225600000
      else if s = ''2026-02-01'' then Time 1769904000000
      else InvalidDate)"

definition kurs_url :: "string \<Rightarrow> string" where
  "kurs_url i = ''https://my.living-apps.de/rest/apps/6997127e30ed7d16882461f9/records/'' @ i"

definition mk_kurs ::
  "string \<Rightarrow> string option \<Rightarrow> string option \<Rightarrow> real option \<Rightarrow> Status option \<Rightarrow> real Kurse" where
  "mk_kurs i start ende p stat =
     \<lparr> record_id = i, createdat = ''2025-12-01T08:00:00'', updatedat = None,
       fields' = \<lparr> titel = Some ''Kurs'', beschreibung = None, startdatum = start,
                   enddatum = ende, max_teilnehmer = None, preis = p, dozent = None,
                   raum = None, status = stat \<rparr> \<rparr>"

definition mk_anmeldung ::
  "string \<Rightarrow> string option \<Rightarrow> string option \<Rightarrow> bool option \<Rightarrow> Anmeldungen" where
  "mk_anmeldung i k datum paid =
     \<lparr> record_id = i, createdat = ''2025-12-02T08:00:00'', updatedat = None,
       fields' = \<lparr> AnmeldungenFields.teilnehmer = None, kurs = k, anmeldedatum = datum,
                   bezahlt = paid \<rparr> \<rparr>"

definition mk_stats :: "real Kurse list \<Rightarrow> Anmeldungen list \<Rightarrow> real Stats" where
  "mk_stats ks as =
     \<lparr> dozenten = [], teilnehmer = [], raeume = [], kurse = ks, anmeldungen = as \<rparr>"

definition kurs_neujahr :: "real Kurse" where
  "kurs_neujahr =
     mk_kurs ''65f0a1b2c3d4e5f601234567'' (Some ''2026-01-01'') None (Some 100) (Some Geplant)"

definition kurs_februar :: "real Kurse" where
  "kurs_februar =
     mk_kurs ''65f0a1b2c3d4e5f6089abcde'' (Some ''2026-02-01'') None (Some 50) (Some Geplant)"

definition kurs_ohne_datum :: "real Kurse" where
  "kurs_ohne_datum = mk_kurs ''65f0a1b2c3d4e5f60fedcba9'' None None None (Some Aktiv)"


definition anmeldung_bezahlt :: Anmeldungen where
  "anmeldung_bezahlt =
     mk_anmeldung ''75f0a1b2c3d4e5f601234501''
       (Some (kurs_url ''65f0a1b2c3d4e5f601234567'')) (Some ''2026-01-01'') (Some True)"

definition anmeldung_offen :: Anmeldungen where
  "anmeldung_offen =
     mk_anmeldung ''75f0a1b2c3d4e5f601234502''
       (Some (kurs_url ''65f0a1b2c3d4e5f601234567'')) (Some ''2026-02-01'') (Some False)"

definition anmeldung_abc :: Anmeldungen where
  "anmeldung_abc =
     mk_anmeldung ''75f0a1b2c3d4e5f601234505''
       (Some (kurs_url ''65f0a1b2c3d4e5f601234567'')) (Some ''abc'') (Some True)"

definition anmeldung_ohne_flag :: Anmeldungen where
  "anmeldung_ohne_flag =
     mk_anmeldung ''75f0a1b2c3d4e5f601234503''
       (Some (kurs_url ''65f0a1b2c3d4e5f601234567'')) None None"

section \<open>Properties of the primitives\<close>

lemma mset_insert_cmp: "mset (insert_cmp cmp x xs) = add_mset x (mset xs)"
  by (induction xs) auto

lemma mset_sort_cmp: "mset (sort_cmp cmp xs) = mset xs"
  by (induction xs) (auto simp: mset_insert_cmp)

lemma set_sort_cmp: "set (sort_cmp cmp xs) = set xs"
  using mset_sort_cmp [of cmp xs] by (metis set_mset_mset)

lemma sum_list_sort_cmp:
  "sum_list (map f (sort_cmp cmp xs)) = sum_list (map f xs)" for f :: "'a \<Rightarrow> int"
proof -
  have "mset (map f (sort_cmp cmp xs)) = mset (map f xs)"
    by (simp add: mset_sort_cmp)
  then show ?thesis by (metis sum_mset_sum_list)
qed

text \<open>
  When the comparator is the difference of an integer key, \<open>sort_cmp\<close> is the library's
  stable sort by that key.
\<close>

lemma insert_cmp_insort_key:
  assumes "\<And>y. y \<in> set ys \<Longrightarrow> (sortCompare cmp x y \<le> 0) = (key x \<le> (key y :: int))"
  shows "insert_cmp cmp x ys = insort_key key x ys"
  using assms by (induction ys) auto

lemma sort_cmp_sort_key:
  assumes "\<And>x y. x \<in> set xs \<Longrightarrow> y \<in> set xs \<Longrightarrow> cmp x y = Some (key x - key y)"
  shows "sort_cmp cmp xs = sort_key key xs"
  using assms
proof (induction xs)
  case Nil
  show ?case by simp
next
  case (Cons x xs)
  have ih: "sort_cmp cmp xs = sort_key key xs"
    using Cons by simp
  have "insert_cmp cmp x (sort_key key xs) = insort_key key x (sort_key key xs)"
    by (rule insert_cmp_insort_key) (simp add: Cons.prems sortCompare_def)
  with ih show ?case by simp
qed

lemma sorted_wrt_sort_cmp:
  assumes "\<And>x y. x \<in> set xs \<Longrightarrow> y \<in> set xs \<Longrightarrow> cmp x y = Some (key x - key y)"
  shows "sorted_wrt (\<lambda>a b. key a \<le> key b) (sort_cmp cmp xs)"
proof -
  have eq: "sort_cmp cmp xs = sort_key key xs"
    by (rule sort_cmp_sort_key) (rule assms)
  have "sorted (map key (sort_key key xs))" by (rule sorted_sort_key)
  then show ?thesis by (simp add: eq sorted_map)
qed

text \<open>The regular expression captures the last 24 characters, when they are all hexadecimal.\<close>

lemma match_at_closed:
  "match_at s = (if 24 \<le> length s \<and> list_all is_hex (drop (length s - 24) s)
                 then Some (drop (length s - 24) s) else None)"
proof (induction s)
  case Nil
  show ?case by simp
next
  case (Cons c cs)
  consider "length cs = 23" | "length cs < 23" | "24 \<le> length cs" by linarith
  then show ?case
  proof cases
    case 1
    then show ?thesis using Cons by simp
  next
    case 2
    then show ?thesis using Cons by simp
  next
    case 3
    then have "length (c # cs) - 24 = Suc (length cs - 24)" by simp
    then have d: "drop (length (c # cs) - 24) (c # cs) = drop (length cs - 24) cs"
      by (simp only: drop_Suc_Cons)
    have "match_at (c # cs) = match_at cs" using 3 by simp
    then show ?thesis using Cons 3 unfolding d by simp
  qed
qed

lemma match_id_kurs_url:
  assumes "length i = 24" "list_all is_hex i"
  shows "match_id (Some (kurs_url i)) = Some i"
  using assms by (simp add: match_id_def match_at_closed kurs_url_def)

section \<open>Properties of the derived figures\<close>

lemma active_pred:
  "(case parse_if_set p (startdatum (fields' k)) of None \<Rightarrow> False
    | Some s \<Rightarrow> isBefore s (Time now) \<and>
        (case parse_if_set p (enddatum (fields' k)) of None \<Rightarrow> True
         | Some e \<Rightarrow> isAfter e (Time now)))
   = spec_active p now k"
  by (auto simp: spec_active_def parse_if_set_def date_of_def is_set_def isBefore_def
      isAfter_def num_less_def split: option.splits)

lemma start_cmp_key:
  assumes "start_time p a = Some ta" "start_time p b = Some tb"
  shows "start_cmp p a b = Some (ta - tb)"
  using assms
  by (auto simp: start_cmp_def start_time_def date_of_def parse_arg_def num_sub_def
      split: option.splits if_splits)

lemma sorted_by_start:
  fixes F :: "'n Kurse list"
  assumes "\<And>k. k \<in> set F \<Longrightarrow> start_time p k \<noteq> None"
  shows "sorted_wrt (\<lambda>a b. num_ge (start_time p b) (start_time p a))
           (take n (sort_cmp (start_cmp p) F))"
proof -
  define key where "key k = (case start_time p k of None \<Rightarrow> 0 | Some t \<Rightarrow> t)"
    for k :: "'n Kurse"
  have k: "start_time p k = Some (key k)" if "k \<in> set F" for k
    using assms [OF that] by (auto simp: key_def)
  have "sorted_wrt (\<lambda>a b. key a \<le> key b) (sort_cmp (start_cmp p) F)"
    by (rule sorted_wrt_sort_cmp) (simp add: start_cmp_key k)
  then have "sorted_wrt (\<lambda>a b. num_ge (start_time p b) (start_time p a)) (sort_cmp (start_cmp p) F)"
    by (rule sorted_wrt_mono_rel [rotated]) (simp add: set_sort_cmp k num_ge_def)
  then show ?thesis by (rule sorted_wrt_take)
qed

lemma recent_cmp_key:
  assumes "date_or_epoch p a = Some ta" "date_or_epoch p b = Some tb"
  shows "recent_cmp p a b = Some ((- ta) - (- tb))"
  using assms
  by (auto simp: recent_cmp_def anmeldedatum_time_def date_or_epoch_def is_set_def date_of_def
      num_sub_def Let_def split: option.splits if_splits)

lemma foldl_plus_sum_list:
  "foldl (\<lambda>acc k. acc + f k) a ks = a + sum_list (map f ks)" for a :: real
  by (induction ks arbitrary: a) (simp_all add: add.assoc)

lemma sum_in_foldl: "sum_in add acc xs = foldl add acc xs"
  by (induction xs arbitrary: acc) simp_all

lemma gesamtUmsatz_in_sum_in:
  "gesamtUmsatz_in add mul num (Some st) =
     sum_in add (num 0)
       (map (\<lambda>k. mul (price_in num k) (num (length (filter (paid_for k) (anmeldungen st)))))
          (kurse st))"
  unfolding gesamtUmsatz_in_def
  by (simp add: Let_def sum_in_foldl foldl_map price_in_def paid_for_def [abs_def])

lemma gesamtUmsatz_sum_list:
  "gesamtUmsatz (Some st) =
     (\<Sum>k\<leftarrow>kurse st. price k * real (length (filter (paid_for k) (anmeldungen st))))"
  unfolding gesamtUmsatz_def gesamtUmsatz_in_def of_nat_0
  by (simp add: Let_def foldl_plus_sum_list price_def paid_for_def [abs_def])

lemma filter_paid_for_resolving:
  assumes "k \<in> set ks"
  shows "filter (paid_for k)
           (filter (\<lambda>a. truthy (bezahlt (fields' a)) \<and> resolves match_id ks a) xs)
         = filter (paid_for k) xs"
  using assms by (induction xs) (auto simp: paid_for_def resolves_def)

lemma sum_list_indicator:
  assumes "distinct (map record_id ks)"
  shows "(\<Sum>k\<leftarrow>ks. if i = Some (record_id k) then 1 else 0)
         = (if (case i of None \<Rightarrow> False | Some j \<Rightarrow> j \<in> set (map record_id ks))
            then 1 else (0::int))"
  using assms by (induction ks) (auto split: option.splits)

lemma sum_counts:
  assumes "distinct (map record_id ks)"
  shows "(\<Sum>k\<leftarrow>ks. int (length (filter (\<lambda>a. ext (kurs (fields' a)) = Some (record_id k)) xs)))
         = int (length (filter (resolves ext ks) xs))"
proof (induction xs)
  case Nil
  show ?case by simp
next
  case (Cons a xs)
  have "(\<Sum>k\<leftarrow>ks. int (length (filter (\<lambda>a. ext (kurs (fields' a)) = Some (record_id k)) (a # xs))))
      = (\<Sum>k\<leftarrow>ks. (if ext (kurs (fields' a)) = Some (record_id k) then 1 else 0)
            + int (length (filter (\<lambda>a. ext (kurs (fields' a)) = Some (record_id k)) xs)))"
    by (rule arg_cong [where f = sum_list], rule map_cong) simp_all
  also have "\<dots> = (\<Sum>k\<leftarrow>ks. if ext (kurs (fields' a)) = Some (record_id k) then 1 else 0)
            + (\<Sum>k\<leftarrow>ks. int (length (filter (\<lambda>a. ext (kurs (fields' a)) = Some (record_id k)) xs)))"
    by (simp add: sum_list_addf)
  also have "\<dots> = (if resolves ext ks a then 1 else 0)
            + int (length (filter (resolves ext ks) xs))"
    unfolding Cons.IH sum_list_indicator [OF assms] resolves_def by simp
  finally show ?case by simp
qed

text \<open>Evaluation of the sample data.\<close>

lemma match_id_sample_url:
  "match_id (Some (kurs_url ''65f0a1b2c3d4e5f601234567'')) = Some ''65f0a1b2c3d4e5f601234567''"
  by (rule match_id_kurs_url) (simp_all add: is_hex_def)

lemma match_id_samples:
  "match_id (kurs (fields' anmeldung_bezahlt)) = Some ''65f0a1b2c3d4e5f601234567''"
  "match_id (kurs (fields' anmeldung_offen)) = Some ''65f0a1b2c3d4e5f601234567''"
  "match_id (kurs (fields' anmeldung_ohne_flag)) = Some ''65f0a1b2c3d4e5f601234567''"
  by (simp_all add: anmeldung_bezahlt_def anmeldung_offen_def anmeldung_ohne_flag_def
      mk_anmeldung_def match_id_sample_url)

section \<open>The claims\<close>

text \<open>
  C1 (as amended). In the first view the active courses are exactly, and in their original
  order, the courses whose start date is set and parses to an instant strictly before now
  and whose end date is unset or parses to an instant strictly after now. In
  DashboardOverview.tsx the active figure is instead the number of courses whose status is
  \<^verbatim>\<open>aktiv\<close>, whatever their dates. Without a snapshot both are empty.
\<close>

theorem active_courses:
  "activeKurse p now (Some st) = filter (spec_active p now) (kurse st)
   \<and> activeKurse p now None = []
   \<and> aktiveKurse (Some st) =
       int (length (filter (\<lambda>k. status (fields' k) = Some Aktiv) (kurse st)))
   \<and> aktiveKurse None = 0"
  by (simp add: activeKurse_def Let_def active_pred aktiveKurse_def)

theorem active_courses_witness:
  "activeKurse parse_ex 1767225600001 (Some (mk_stats [kurs_februar, kurs_neujahr] []))
     = [kurs_neujahr]
   \<and> spec_active parse_ex 1767225600001 kurs_neujahr
   \<and> \<not> spec_active parse_ex 1767225600001 kurs_februar
   \<and> aktiveKurse (Some (mk_stats [kurs_februar, kurs_neujahr] [])) = 0"
  using active_courses [of parse_ex 1767225600001 "mk_stats [kurs_februar, kurs_neujahr] []",
      THEN conjunct1]
  by (simp add: mk_stats_def kurs_februar_def kurs_neujahr_def mk_kurs_def spec_active_def
      date_of_def is_set_def parse_ex_def num_less_def aktiveKurse_def)

text \<open>
  C1 as stated fails for DashboardOverview.tsx: a course with status \<^verbatim>\<open>aktiv\<close> and no start
  date is counted as active there, although no course lies in the date window.
\<close>

theorem aktiveKurse_ignores_dates:
  "aktiveKurse (Some (mk_stats [kurs_ohne_datum] [])) = 1
   \<and> filter (spec_active parse_ex 1767225600000) (kurse (mk_stats [kurs_ohne_datum] [])) = []"
  by (simp add: aktiveKurse_def mk_stats_def kurs_ohne_datum_def mk_kurs_def spec_active_def
      date_of_def num_less_def)

text \<open>
  C2 (as amended). The upcoming list of the first view holds only courses whose start date
  is set and strictly after now, is sorted ascending by start date and has at most 5
  entries. The upcoming list of DashboardOverview.tsx holds only courses whose start date is
  set and at or after now, is sorted ascending by start date and has at most 4 entries.
\<close>

theorem upcoming_courses:
  "(\<forall>k \<in> set (upcomingKurse p now s). num_less (Some now) (start_time p k))
   \<and> sorted_wrt (\<lambda>a b. num_ge (start_time p b) (start_time p a)) (upcomingKurse p now s)
   \<and> length (upcomingKurse p now s) \<le> 5
   \<and> (\<forall>k \<in> set (upcomingKurse_Overview d now s). num_ge (start_time d k) (Some now))
   \<and> sorted_wrt (\<lambda>a b. num_ge (start_time d b) (start_time d a))
        (upcomingKurse_Overview d now s)
   \<and> length (upcomingKurse_Overview d now s) \<le> 4"
proof -
  define xs where "xs = (case s of None \<Rightarrow> [] | Some st \<Rightarrow> kurse st)"
  define F where "F = filter (\<lambda>k. case parse_if_set p (startdatum (fields' k)) of
                          None \<Rightarrow> False | Some s \<Rightarrow> isAfter s (Time now)) xs"
  define G where "G = filter (\<lambda>k. case startdatum (fields' k) of None \<Rightarrow> False
                    | Some s \<Rightarrow> s \<noteq> [] \<and> num_ge (getTime (d s)) (Some now)) xs"
  have u: "upcomingKurse p now s = take 5 (sort_cmp (start_cmp p) F)"
    by (simp add: upcomingKurse_def F_def xs_def split: option.splits)
  have v: "upcomingKurse_Overview d now s = take 4 (sort_cmp (start_cmp d) G)"
    by (simp add: upcomingKurse_Overview_def G_def xs_def)
  have f: "num_less (Some now) (start_time p k)" if "k \<in> set F" for k
    using that
    by (auto simp: F_def start_time_def date_of_def parse_if_set_def isAfter_def
        split: option.splits if_splits)
  have g: "num_ge (start_time d k) (Some now)" if "k \<in> set G" for k
    using that
    by (auto simp: G_def start_time_def date_of_def split: option.splits)
  have f': "start_time p k \<noteq> None" if "k \<in> set F" for k
    using f [OF that] by (auto simp: num_less_def split: option.splits)
  have g': "start_time d k \<noteq> None" if "k \<in> set G" for k
    using g [OF that] by (auto simp: num_ge_def split: option.splits)
  have "\<forall>k \<in> set (upcomingKurse p now s). num_less (Some now) (start_time p k)"
    unfolding u using f set_sort_cmp [of "start_cmp p" F] by (auto dest: in_set_takeD)
  moreover have "\<forall>k \<in> set (upcomingKurse_Overview d now s). num_ge (start_time d k) (Some now)"
    unfolding v using g set_sort_cmp [of "start_cmp d" G] by (auto dest: in_set_takeD)
  moreover have "sorted_wrt (\<lambda>a b. num_ge (start_time p b) (start_time p a))
                   (upcomingKurse p now s)"
    unfolding u by (rule sorted_by_start) (rule f')
  moreover have "sorted_wrt (\<lambda>a b. num_ge (start_time d b) (start_time d a))
                   (upcomingKurse_Overview d now s)"
    unfolding v by (rule sorted_by_start) (rule g')
  moreover have "length (upcomingKurse p now s) \<le> 5" unfolding u by simp
  moreover have "length (upcomingKurse_Overview d now s) \<le> 4" unfolding v by simp
  ultimately show ?thesis by blast
qed

theorem upcoming_courses_witness:
  "upcomingKurse parse_ex 1767000000000
     (Some (mk_stats [kurs_februar, kurs_ohne_datum, kurs_neujahr] []))
     = [kurs_neujahr, kurs_februar]
   \<and> upcomingKurse_Overview parse_ex 1767000000000
     (Some (mk_stats [kurs_februar, kurs_ohne_datum, kurs_neujahr] []))
     = [kurs_neujahr, kurs_februar]
   \<and> num_less (Some 1767000000000) (start_time parse_ex kurs_neujahr)
   \<and> num_less (Some 1767000000000) (start_time parse_ex kurs_februar)
   \<and> num_ge (start_time parse_ex kurs_februar) (start_time parse_ex kurs_neujahr)"
  using upcoming_courses [of parse_ex 1767000000000
      "Some (mk_stats [kurs_februar, kurs_ohne_datum, kurs_neujahr] [])" parse_ex]
  by (simp add: upcomingKurse_def upcomingKurse_Overview_def mk_stats_def kurs_februar_def
      kurs_neujahr_def kurs_ohne_datum_def mk_kurs_def parse_if_set_def parse_arg_def
      parse_ex_def isAfter_def num_less_def num_ge_def num_sub_def start_cmp_def
      sortCompare_def start_time_def date_of_def)

text \<open>
  C2 as stated fails for DashboardOverview.tsx, whose filter is \<^verbatim>\<open>>=\<close>: a course starting
  exactly now is listed as upcoming.
\<close>

theorem upcoming_Overview_includes_now:
  "upcomingKurse_Overview parse_ex 1767225600000 (Some (mk_stats [kurs_neujahr] []))
     = [kurs_neujahr]
   \<and> start_time parse_ex kurs_neujahr = Some 1767225600000
   \<and> \<not> num_less (Some 1767225600000) (start_time parse_ex kurs_neujahr)"
  by (simp add: upcomingKurse_Overview_def mk_stats_def kurs_neujahr_def mk_kurs_def
      parse_ex_def num_less_def num_ge_def start_time_def date_of_def)

text \<open>
  C3. In whatever arithmetic the numbers are added and multiplied (in the program, that of
  doubles), the total revenue is the sum, added up from 0 in the order of the courses, of
  the course's price (0 if absent) times the number of registrations that are paid and
  whose reference identity equals the course's identity. Dropping every registration that
  is unpaid or that references no loaded course leaves the revenue unchanged. The reference
  identity is the last 24 characters of the reference string when all of them are
  hexadecimal digits of either case, and is absent otherwise.
\<close>

theorem revenue_sum:
  "gesamtUmsatz_in add mul num (Some st) =
     sum_in add (num 0)
       (map (\<lambda>k. mul (price_in num k) (num (length (filter (paid_for k) (anmeldungen st)))))
          (kurse st))
   \<and> gesamtUmsatz_in add mul num (Some (st\<lparr> anmeldungen :=
        filter (\<lambda>a. truthy (bezahlt (fields' a)) \<and> resolves match_id (kurse st) a)
          (anmeldungen st) \<rparr>)) = gesamtUmsatz_in add mul num (Some st)
   \<and> match_id (Some r) =
       (if 24 \<le> length r \<and> list_all is_hex (drop (length r - 24) r)
        then Some (drop (length r - 24) r) else None)
   \<and> match_id None = None"
proof -
  have m: "map (\<lambda>k. mul (price_in num k) (num (length (filter (paid_for k)
            (filter (\<lambda>a. truthy (bezahlt (fields' a)) \<and> resolves match_id (kurse st) a)
               (anmeldungen st)))))) (kurse st)
      = map (\<lambda>k. mul (price_in num k) (num (length (filter (paid_for k) (anmeldungen st)))))
          (kurse st)"
    by (rule map_cong) (simp_all del: filter_filter add: filter_paid_for_resolving)
  show ?thesis
    by (simp del: filter_filter add: gesamtUmsatz_in_sum_in m match_id_def match_at_closed)
qed

theorem revenue_sum_witness:
  "gesamtUmsatz_in (+) (*) real (Some (mk_stats [kurs_februar, kurs_neujahr]
      [anmeldung_bezahlt, anmeldung_offen, anmeldung_bezahlt, anmeldung_ohne_flag])) = 200
   \<and> gesamtUmsatz_in (+) (*) real (Some (mk_stats [kurs_februar, kurs_neujahr]
      [anmeldung_bezahlt, anmeldung_bezahlt])) = 200
   \<and> match_id (Some (kurs_url ''65f0a1b2c3d4e5f601234567'')) = Some ''65f0a1b2c3d4e5f601234567''
   \<and> match_id (Some ''65f0a1b2c3d4e5f60123456'') = None"
  using revenue_sum [of "(+)" "(*)" real "mk_stats [kurs_februar, kurs_neujahr]
      [anmeldung_bezahlt, anmeldung_offen, anmeldung_bezahlt, anmeldung_ohne_flag]"
      "''65f0a1b2c3d4e5f60123456''"]
  by (simp add: mk_stats_def price_in_def paid_for_def resolves_def match_id_samples truthy_def
      kurs_februar_def kurs_neujahr_def mk_kurs_def anmeldung_bezahlt_def anmeldung_offen_def
      anmeldung_ohne_flag_def mk_anmeldung_def match_id_sample_url gesamtUmsatz_in_def)




text \<open>
  C5. When the course identities are pairwise distinct, the per-course registration counts
  (as mapped, and as sorted, before the cut to six rows) add up to the number of
  registrations whose reference identity is the identity of some loaded course, in both
  views; registrations with an absent or unmatched reference are not counted.
\<close>

theorem counts_sum:
  assumes "distinct (map record_id (kurse st))"
  shows "sum_list (map count (kursCounts ext st))
           = int (length (filter (resolves ext (kurse st)) (anmeldungen st)))
     \<and> sum_list (map count (sort_cmp count_cmp (kursCounts ext st)))
           = int (length (filter (resolves ext (kurse st)) (anmeldungen st)))
     \<and> sum_list (map KursAnmeldungenDatum.anmeldungen (kursAnmeldungenRows (Some st)))
           = int (length (filter (resolves match_id (kurse st)) (anmeldungen st)))
     \<and> sum_list (map KursAnmeldungenDatum.anmeldungen
            (sort_cmp anmeldungen_cmp (kursAnmeldungenRows (Some st))))
           = int (length (filter (resolves match_id (kurse st)) (anmeldungen st)))"
proof -
  have a: "sum_list (map count (kursCounts ext st))
           = int (length (filter (resolves ext (kurse st)) (anmeldungen st)))"
    unfolding kursCounts_def using sum_counts [OF assms, of ext "anmeldungen st"]
    by (simp add: comp_def)
  have b: "sum_list (map KursAnmeldungenDatum.anmeldungen (kursAnmeldungenRows (Some st)))
           = int (length (filter (resolves match_id (kurse st)) (anmeldungen st)))"
    unfolding kursAnmeldungenRows_def using sum_counts [OF assms, of match_id "anmeldungen st"]
    by (simp add: comp_def)
  show ?thesis using a b by (simp add: sum_list_sort_cmp)
qed

theorem counts_sum_witness:
  "distinct (map record_id (kurse (mk_stats [kurs_februar, kurs_neujahr]
      [anmeldung_bezahlt, mk_anmeldung ''75f0a1b2c3d4e5f601234504'' None None None,
       anmeldung_offen])))
   \<and> sum_list (map KursAnmeldungenDatum.anmeldungen (kursAnmeldungenRows
       (Some (mk_stats [kurs_februar, kurs_neujahr]
          [anmeldung_bezahlt, mk_anmeldung ''75f0a1b2c3d4e5f601234504'' None None None,
           anmeldung_offen])))) = 2"
proof -
  have d: "distinct (map record_id (kurse (mk_stats [kurs_februar, kurs_neujahr]
      [anmeldung_bezahlt, mk_anmeldung ''75f0a1b2c3d4e5f601234504'' None None None,
       anmeldung_offen])))"
    by (simp add: mk_stats_def kurs_februar_def kurs_neujahr_def mk_kurs_def)
  show ?thesis
    using d counts_sum [OF d, of match_id]
    by (simp add: mk_stats_def resolves_def match_id_samples kurs_februar_def
        kurs_neujahr_def mk_kurs_def)
       (simp add: mk_anmeldung_def match_id_def)
qed

text \<open>
  C6. The paid count plus the unpaid count is the total number of registrations (0 without
  a snapshot), and the unpaid count is the number of registrations that are not paid.
\<close>

theorem paid_plus_unpaid:
  "bezahltCount s + unbezahltCount s =
     (case s of None \<Rightarrow> 0 | Some st \<Rightarrow> int (length (anmeldungen st)))
   \<and> unbezahltCount s = (case s of None \<Rightarrow> 0 | Some st \<Rightarrow>
        int (length (filter (\<lambda>a. \<not> truthy (bezahlt (fields' a))) (anmeldungen st))))"
proof -
  have "length (filter (\<lambda>a. \<not> truthy (bezahlt (fields' a))) xs)
        + length (filter (\<lambda>a. truthy (bezahlt (fields' a))) xs) = length xs"
    for xs :: "Anmeldungen list"
    using sum_length_filter_compl [of "\<lambda>a. truthy (bezahlt (fields' a))" xs] by simp
  then show ?thesis
    unfolding unbezahltCount_def bezahltCount_def
    by (auto split: option.splits simp: algebra_simps) (metis of_nat_add add.commute)
qed

theorem paid_plus_unpaid_witness:
  "bezahltCount (Some (mk_stats [] [anmeldung_bezahlt, anmeldung_offen, anmeldung_ohne_flag])) = 1
   \<and> unbezahltCount (Some (mk_stats [] [anmeldung_bezahlt, anmeldung_offen, anmeldung_ohne_flag])) = 2"
  using paid_plus_unpaid [of "Some (mk_stats [] [anmeldung_bezahlt, anmeldung_offen, anmeldung_ohne_flag])"]
  by (simp add: bezahltCount_def mk_stats_def truthy_def anmeldung_bezahlt_def
      anmeldung_offen_def anmeldung_ohne_flag_def mk_anmeldung_def)

text \<open>
  C7 (as amended). When every registration date that is set parses to a valid instant, the
  recent list is the first six entries of a rearrangement of the registrations that is
  sorted descending by registration date, a registration without a date ranking as if dated
  at the epoch (timestamp 0).
\<close>

theorem recent_registrations:
  assumes "\<forall>a \<in> set (anmeldungen st). date_or_epoch p a \<noteq> None"
  shows "recentAnmeldungen p (Some st) = take 6 (sort_cmp (recent_cmp p) (anmeldungen st))
     \<and> mset (sort_cmp (recent_cmp p) (anmeldungen st)) = mset (anmeldungen st)
     \<and> sorted_wrt (\<lambda>a b. num_ge (date_or_epoch p a) (date_or_epoch p b))
          (sort_cmp (recent_cmp p) (anmeldungen st))"
proof -
  define key where "key a = (case date_or_epoch p a of None \<Rightarrow> 0 | Some t \<Rightarrow> - t)" for a
  have k: "date_or_epoch p a = Some (- key a)" if "a \<in> set (anmeldungen st)" for a
    using assms that by (auto simp: key_def)
  have "sorted_wrt (\<lambda>a b. key a \<le> key b) (sort_cmp (recent_cmp p) (anmeldungen st))"
    by (rule sorted_wrt_sort_cmp) (simp add: recent_cmp_key k)
  then have "sorted_wrt (\<lambda>a b. num_ge (date_or_epoch p a) (date_or_epoch p b))
          (sort_cmp (recent_cmp p) (anmeldungen st))"
    by (rule sorted_wrt_mono_rel [rotated]) (simp add: set_sort_cmp k num_ge_def)
  then show ?thesis
    by (simp add: recentAnmeldungen_def mset_sort_cmp)
qed

theorem recent_registrations_witness:
  "date_or_epoch parse_ex anmeldung_bezahlt = Some 1767225600000
   \<and> date_or_epoch parse_ex anmeldung_ohne_flag = Some 0
   \<and> date_or_epoch parse_ex anmeldung_offen = Some 1769904000000
   \<and> recentAnmeldungen parse_ex
       (Some (mk_stats [] [anmeldung_bezahlt, anmeldung_ohne_flag, anmeldung_offen]))
     = [anmeldung_offen, anmeldung_bezahlt, anmeldung_ohne_flag]"
proof -
  have e: "date_or_epoch parse_ex anmeldung_bezahlt = Some 1767225600000"
    "date_or_epoch parse_ex anmeldung_ohne_flag = Some 0"
    "date_or_epoch parse_ex anmeldung_offen = Some 1769904000000"
    by (simp_all add: date_or_epoch_def is_set_def date_of_def parse_ex_def
        anmeldung_bezahlt_def anmeldung_offen_def anmeldung_ohne_flag_def mk_anmeldung_def)
  have an: "anmeldungen (mk_stats [] [anmeldung_bezahlt, anmeldung_ohne_flag, anmeldung_offen])
        = [anmeldung_bezahlt, anmeldung_ohne_flag, anmeldung_offen]"
    by (simp add: mk_stats_def)
  have h: "\<forall>a \<in> set (anmeldungen (mk_stats [] [anmeldung_bezahlt, anmeldung_ohne_flag, anmeldung_offen])).
       date_or_epoch parse_ex a \<noteq> None"
    unfolding an by (simp add: e)
  have s: "sort_cmp (recent_cmp parse_ex) [anmeldung_bezahlt, anmeldung_ohne_flag, anmeldung_offen]
        = [anmeldung_offen, anmeldung_bezahlt, anmeldung_ohne_flag]"
    by (simp add: recent_cmp_def anmeldedatum_time_def sortCompare_def num_sub_def parse_ex_def
        anmeldung_bezahlt_def anmeldung_offen_def anmeldung_ohne_flag_def mk_anmeldung_def)
  have r: "recentAnmeldungen parse_ex
       (Some (mk_stats [] [anmeldung_bezahlt, anmeldung_ohne_flag, anmeldung_offen]))
     = take 6 [anmeldung_offen, anmeldung_bezahlt, anmeldung_ohne_flag]"
    using recent_registrations [OF h] unfolding an s by (rule conjunct1)
  show ?thesis
    using e r by simp
qed

text \<open>
  C7 as stated fails when a set registration date does not parse: the comparator answers
  NaN for every pair with that registration, and a January registration stays in front of
  a February one.
\<close>

theorem recent_unsorted_with_invalid_date:
  "recentAnmeldungen parse_ex
       (Some (mk_stats [] [anmeldung_bezahlt, anmeldung_abc, anmeldung_offen]))
     = [anmeldung_bezahlt, anmeldung_abc, anmeldung_offen]
   \<and> date_or_epoch parse_ex anmeldung_bezahlt = Some 1767225600000
   \<and> date_or_epoch parse_ex anmeldung_offen = Some 1769904000000
   \<and> \<not> num_ge (date_or_epoch parse_ex anmeldung_bezahlt)
           (date_or_epoch parse_ex anmeldung_offen)"
  by (simp add: recentAnmeldungen_def mk_stats_def recent_cmp_def anmeldedatum_time_def
      sortCompare_def num_sub_def num_ge_def parse_ex_def date_or_epoch_def is_set_def
      date_of_def anmeldung_bezahlt_def anmeldung_abc_def anmeldung_offen_def mk_anmeldung_def)

text \<open>
  C8. The status distribution holds, in the order geplant, aktiv, abgeschlossen, abgesagt,
  one bucket for each status whose number of courses is positive, with that status's label,
  count and fixed colour; no bucket has count zero.
\<close>

theorem status_distribution:
  "statusData s =
     map (status_bucket s)
       (filter (\<lambda>x. 0 < status_count s x) [Geplant, Aktiv, Abgeschlossen, Abgesagt])
   \<and> (\<forall>d \<in> set (statusData s). 0 < val d)"
  unfolding statusData_def status_bucket_def status_count_def
  by (auto split: option.splits)

theorem status_distribution_witness:
  "statusData (Some (mk_stats [kurs_neujahr, kurs_ohne_datum, kurs_februar] []))
     = [\<lparr> StatusDatum.name = ''Geplant'', val = 2, color = ''oklch(0.72 0.18 55)'' \<rparr>,
        \<lparr> StatusDatum.name = ''Aktiv'', val = 1, color = ''oklch(0.62 0.18 160)'' \<rparr>]"
  using status_distribution [of "Some (mk_stats [kurs_neujahr, kurs_ohne_datum, kurs_februar] [])"]
  by (simp add: status_bucket_def status_count_def mk_stats_def kurs_neujahr_def
      kurs_ohne_datum_def kurs_februar_def mk_kurs_def)

text \<open>
  C9. If any of the five requests rejects, then after the effect the view, started from its
  initial state, has finished loading, holds no snapshot and has logged one error, whatever
  the other four requests did; and without a snapshot every derived figure of both views is
  empty or zero.
\<close>

theorem fetch_failure_no_data:
  assumes "is_rejected pd \<or> is_rejected pt \<or> is_rejected pr \<or> is_rejected pk \<or> is_rejected pa"
  shows "load pd pt pr pk pa initial_view
           = \<lparr> stats = None, loading = False, console_errors = 1 \<rparr>
    \<and> useEffect_Overview pk pa pd pt pr initial_view
           = \<lparr> stats = None, loading = False, console_errors = 1 \<rparr>
    \<and> activeKurse p now None = [] \<and> upcomingKurse p now None = []
    \<and> bezahltCount None = 0 \<and> unbezahltCount None = 0
    \<and> kursAnmeldungen ext None = [] \<and> recentAnmeldungen p None = []
    \<and> aktiveKurse None = 0 \<and> gesamtUmsatz None = 0 \<and> statusData None = []
    \<and> kursAnmeldungenData None = [] \<and> upcomingKurse_Overview nd now None = []"
proof -
  have a: "Promise_all pd pt pr pk pa = Rejected" using assms by (auto simp: Promise_all_def)
  have b: "Promise_all pk pa pd pt pr = Rejected" using assms by (auto simp: Promise_all_def)
  show ?thesis
    by (simp add: load_def useEffect_Overview_def a b initial_view_def activeKurse_def
        upcomingKurse_def bezahltCount_def unbezahltCount_def kursAnmeldungen_def
        recentAnmeldungen_def aktiveKurse_def gesamtUmsatz_def gesamtUmsatz_in_def statusData_def
        kursAnmeldungenData_def kursAnmeldungenRows_def upcomingKurse_Overview_def)
qed

theorem fetch_failure_no_data_witness:
  "stats (load (Fulfilled []) Rejected Pending (Fulfilled [kurs_neujahr])
            (Fulfilled [anmeldung_bezahlt]) initial_view) = None
   \<and> loading (load (Fulfilled []) Rejected Pending (Fulfilled [kurs_neujahr])
            (Fulfilled [anmeldung_bezahlt]) initial_view) = False
   \<and> stats (useEffect_Overview (Fulfilled [kurs_neujahr]) (Fulfilled [anmeldung_bezahlt])
            (Fulfilled []) Rejected Pending initial_view) = None"
proof -
  have h: "is_rejected (Fulfilled ([] :: Dozenten list)) \<or> is_rejected (Rejected :: Teilnehmer list Promise)
      \<or> is_rejected (Pending :: real Raeume list Promise) \<or> is_rejected (Fulfilled [kurs_neujahr])
      \<or> is_rejected (Fulfilled [anmeldung_bezahlt])"
    by simp
  show ?thesis
    using fetch_failure_no_data [OF h, THEN conjunct1]
      fetch_failure_no_data [OF h, THEN conjunct2, THEN conjunct1]
    by simp
qed

text \<open>
  C10. A registration whose paid flag is absent does not add to the paid count, adds one to
  the unpaid count and adds nothing to the revenue; all three figures are what they would be
  if its flag were \<^verbatim>\<open>false\<close>.
\<close>

theorem absent_flag_is_unpaid:
  assumes "bezahlt (fields' a) = None"
  shows "bezahltCount (Some (st\<lparr> anmeldungen := xs @ a # ys \<rparr>))
           = bezahltCount (Some (st\<lparr> anmeldungen := xs @ ys \<rparr>))
     \<and> unbezahltCount (Some (st\<lparr> anmeldungen := xs @ a # ys \<rparr>))
           = unbezahltCount (Some (st\<lparr> anmeldungen := xs @ ys \<rparr>)) + 1
     \<and> gesamtUmsatz (Some (st\<lparr> anmeldungen := xs @ a # ys \<rparr>))
           = gesamtUmsatz (Some (st\<lparr> anmeldungen := xs @ ys \<rparr>))
     \<and> bezahltCount (Some (st\<lparr> anmeldungen := xs @ a # ys \<rparr>))
           = bezahltCount (Some (st\<lparr> anmeldungen :=
               xs @ a\<lparr> fields' := (fields' a)\<lparr> bezahlt := Some False \<rparr> \<rparr> # ys \<rparr>))
     \<and> unbezahltCount (Some (st\<lparr> anmeldungen := xs @ a # ys \<rparr>))
           = unbezahltCount (Some (st\<lparr> anmeldungen :=
               xs @ a\<lparr> fields' := (fields' a)\<lparr> bezahlt := Some False \<rparr> \<rparr> # ys \<rparr>))
     \<and> gesamtUmsatz (Some (st\<lparr> anmeldungen := xs @ a # ys \<rparr>))
           = gesamtUmsatz (Some (st\<lparr> anmeldungen :=
               xs @ a\<lparr> fields' := (fields' a)\<lparr> bezahlt := Some False \<rparr> \<rparr> # ys \<rparr>))"
proof -
  have np: "\<not> paid_for k a" for k :: "real Kurse"
    using assms by (simp add: paid_for_def truthy_def)
  have np': "\<not> paid_for k (a\<lparr> fields' := (fields' a)\<lparr> bezahlt := Some False \<rparr> \<rparr>)"
    for k :: "real Kurse"
    by (simp add: paid_for_def truthy_def)
  show ?thesis
    using assms
    by (simp add: bezahltCount_def unbezahltCount_def gesamtUmsatz_sum_list truthy_def np np')
qed

theorem absent_flag_is_unpaid_witness:
  "bezahlt (fields' anmeldung_ohne_flag) = None
   \<and> bezahltCount (Some (mk_stats [kurs_neujahr] [anmeldung_bezahlt, anmeldung_ohne_flag])) = 1
   \<and> unbezahltCount (Some (mk_stats [kurs_neujahr] [anmeldung_bezahlt, anmeldung_ohne_flag])) = 1
   \<and> gesamtUmsatz (Some (mk_stats [kurs_neujahr] [anmeldung_bezahlt, anmeldung_ohne_flag])) = 100"
proof -
  have h: "bezahlt (fields' anmeldung_ohne_flag) = None"
    by (simp add: anmeldung_ohne_flag_def mk_anmeldung_def)
  have b: "bezahltCount (Some (mk_stats [kurs_neujahr] [anmeldung_bezahlt])) = 1"
    by (simp add: bezahltCount_def mk_stats_def truthy_def anmeldung_bezahlt_def mk_anmeldung_def)
  have u: "unbezahltCount (Some (mk_stats [kurs_neujahr] [anmeldung_bezahlt])) = 0"
    by (simp add: unbezahltCount_def b) (simp add: mk_stats_def)
  have g: "gesamtUmsatz (Some (mk_stats [kurs_neujahr] [anmeldung_bezahlt])) = 100"
    by (simp add: gesamtUmsatz_def gesamtUmsatz_in_def mk_stats_def match_id_samples truthy_def)
       (simp add: kurs_neujahr_def mk_kurs_def anmeldung_bezahlt_def mk_anmeldung_def)
  have m: "(mk_stats [kurs_neujahr] [anmeldung_bezahlt]) \<lparr> anmeldungen := [anmeldung_bezahlt] @ anmeldung_ohne_flag # [] \<rparr>
        = mk_stats [kurs_neujahr] [anmeldung_bezahlt, anmeldung_ohne_flag]"
    "(mk_stats [kurs_neujahr] [anmeldung_bezahlt]) \<lparr> anmeldungen := [anmeldung_bezahlt] @ [] \<rparr>
        = mk_stats [kurs_neujahr] [anmeldung_bezahlt]"
    by (simp_all add: mk_stats_def)
  show ?thesis
    using h absent_flag_is_unpaid [OF h, where st = "mk_stats [kurs_neujahr] [anmeldung_bezahlt]"
        and xs = "[anmeldung_bezahlt]" and ys = "[]"]
    unfolding m by (simp add: b u g)
qed

end
